theory Spec2Isabelle
  imports Main "HOL-Library.Word"
begin

section \<open>The native barrier binding \<^verbatim>\<open>src/nativecode/membarrier.c\<close>\<close>

text \<open>
  The repository is one C function, the JNI entry point
  \<^verbatim>\<open>Java_nativecode_MemBarrier_flushAllThreads\<close>:
  \<^verbatim>\<open>
  JNIEXPORT jint JNICALL Java_nativecode_MemBarrier_flushAllThreads(JNIEnv *env, jclass clazz) {
      int ret = syscall(SYS_membarrier, MEMBARRIER_CMD_SHARED, 0);
      if (ret == -1) {
          return -errno;
      }
      return ret;
  }
  \<close>
  Everything it does goes through the C library: it issues one system call, reads the
  thread's \<^verbatim>\<open>errno\<close> and returns an integer. The embedding below passes the
  state of that environment explicitly.
\<close>

subsection \<open>C types\<close>

text \<open>
  \<^verbatim>\<open>int\<close> and JNI's \<^verbatim>\<open>jint\<close> are 32-bit two's complement integers.
  \<^verbatim>\<open>syscall\<close> is declared \<^verbatim>\<open>long syscall(long number, ...)\<close>; \<^verbatim>\<open>long\<close>
  has 64 bits in the LP64 data model of 64-bit Linux. Signed values are read with
  \<^term>\<open>sint\<close>.
\<close>

type_synonym long = "64 word"
type_synonym cint = "32 word"
type_synonym jint = "32 word"

text \<open>
  The two constants of the call come from the system headers
  \<^verbatim>\<open>sys/syscall.h\<close> and \<^verbatim>\<open>linux/membarrier.h\<close>, which are not part of the
  repository (the system call number differs between architectures). They are a
  parameter of the model.
\<close>

record platform =
  SYS_membarrier :: long
  MEMBARRIER_CMD_SHARED :: long

subsection \<open>The environment: system calls and \<^verbatim>\<open>errno\<close>\<close>

text \<open>A system call as it is issued: its number and its arguments, in order.\<close>

record syscall_req =
  sys_number :: long
  sys_args :: "long list"

text \<open>
  What the caller of \<^verbatim>\<open>syscall\<close> observes when it returns: the returned
  \<^verbatim>\<open>long\<close> and the value \<^verbatim>\<open>errno\<close> then has. No relation between the two
  is assumed: the C library's contract (the result \<^verbatim>\<open>-1\<close> comes with a positive
  \<^verbatim>\<open>errno\<close>) is a hypothesis where a property needs it.
\<close>

record sys_outcome =
  sys_ret :: long
  sys_errno :: cint

text \<open>
  The state outside the function: the calling thread's \<^verbatim>\<open>errno\<close>, the system
  calls issued so far (oldest first), and the operating system, which answers a system
  call depending on everything issued up to and including it.
\<close>

record world =
  errno :: cint
  issued :: "syscall_req list"
  kernel :: "syscall_req list \<Rightarrow> sys_outcome"

definition syscall :: "long \<Rightarrow> long list \<Rightarrow> world \<Rightarrow> long \<times> world" where
  "syscall number args w =
     (let issued' = issued w @ [\<lparr>sys_number = number, sys_args = args\<rparr>];
          oc = kernel w issued'
      in (sys_ret oc, w\<lparr>errno := sys_errno oc, issued := issued'\<rparr>))"

subsection \<open>Signed negation\<close>

text \<open>
  Unary minus on an \<^verbatim>\<open>int\<close>. Negating \<^verbatim>\<open>INT_MIN\<close> overflows, which C leaves
  undefined; the model reports it as a fault instead of choosing a result.
\<close>

datatype fault = SignedOverflow

definition INT_MIN :: cint where
  "INT_MIN = - (2 ^ 31)"

definition neg_int :: "cint \<Rightarrow> fault + cint" where
  "neg_int x = (if x = INT_MIN then Inl SignedOverflow else Inr (- x))"

subsection \<open>The entry point\<close>

text \<open>
  \<^verbatim>\<open>env\<close> and \<^verbatim>\<open>clazz\<close> are the call context every JNI function of a static
  native method receives; the body never uses them. The initialisation of
  \<^verbatim>\<open>ret\<close> converts the \<^verbatim>\<open>long\<close> result to \<^verbatim>\<open>int\<close>, which keeps its low 32
  bits.
\<close>

definition Java_nativecode_MemBarrier_flushAllThreads ::
  "platform \<Rightarrow> 'env \<Rightarrow> 'cls \<Rightarrow> world \<Rightarrow> (fault + jint) \<times> world" where
  "Java_nativecode_MemBarrier_flushAllThreads p env clazz w =
     (let (r, w') = syscall (SYS_membarrier p) [MEMBARRIER_CMD_SHARED p, 0] w;
          ret = (scast r :: cint)
      in if ret = - 1 then (neg_int (errno w'), w') else (Inr ret, w'))"

abbreviation flushAllThreads ::
  "platform \<Rightarrow> 'env \<Rightarrow> 'cls \<Rightarrow> world \<Rightarrow> (fault + jint) \<times> world" where
  "flushAllThreads \<equiv> Java_nativecode_MemBarrier_flushAllThreads"

text \<open>
  A caller that invokes the entry point \<open>n\<close> times in a row, collecting the results in
  order.
\<close>

fun repeat_calls ::
  "platform \<Rightarrow> 'env \<Rightarrow> 'cls \<Rightarrow> nat \<Rightarrow> world \<Rightarrow> (fault + jint) list \<times> world" where
  "repeat_calls p env clazz 0 w = ([], w)"
| "repeat_calls p env clazz (Suc n) w =
     (let (r, w') = flushAllThreads p env clazz w;
          (rs, w'') = repeat_calls p env clazz n w'
      in (r # rs, w''))"

subsection \<open>Concrete environments\<close>

text \<open>
  The constants of x86-64 Linux (\<^verbatim>\<open>__NR_membarrier\<close> is 324 there, and
  \<^verbatim>\<open>MEMBARRIER_CMD_SHARED\<close> is \<^verbatim>\<open>1 << 0\<close>), and operating systems that answer
  every call in the same way.
\<close>

definition x86_64 :: platform where
  "x86_64 = \<lparr>SYS_membarrier = 324, MEMBARRIER_CMD_SHARED = 1\<rparr>"

definition answering :: "long \<Rightarrow> cint \<Rightarrow> world" where
  "answering r e =
     \<lparr>errno = 0, issued = [], kernel = (\<lambda>_. \<lparr>sys_ret = r, sys_errno = e\<rparr>)\<rparr>"

text \<open>
  An operating system without the facility (\<^verbatim>\<open>ENOSYS\<close> is 38), and one whose
  answer depends on how many calls have been issued: the first call succeeds, every
  later one is refused with \<^verbatim>\<open>EPERM\<close> (1).
\<close>

definition ENOSYS :: cint where
  "ENOSYS = 38"

definition first_only :: world where
  "first_only =
     \<lparr>errno = 0, issued = [],
      kernel = (\<lambda>rs. if length rs \<le> 1 then \<lparr>sys_ret = 0, sys_errno = 0\<rparr>
                       else \<lparr>sys_ret = - 1, sys_errno = 1\<rparr>)\<rparr>"

section \<open>Auxiliary facts\<close>

subsection \<open>32-bit arithmetic\<close>

lemma sint_scast_fits:
  "- (2 ^ 31) \<le> sint (r::long) \<Longrightarrow> sint r < 2 ^ 31 \<Longrightarrow> sint (scast r :: cint) = sint r"
  by (simp add: signed_scast_eq signed_take_bit_int_eq_self)

lemma INT_MIN_iff: "x = INT_MIN \<longleftrightarrow> sint x = - (2 ^ 31)"
proof
  assume "x = INT_MIN"
  then show "sint x = - (2 ^ 31)" by (simp add: INT_MIN_def)
next
  assume "sint x = - (2 ^ 31)"
  then have "sint x = sint INT_MIN" by (simp add: INT_MIN_def)
  then show "x = INT_MIN" by (rule signed_word_eqI)
qed

lemma sint_uminus_cint:
  assumes "x \<noteq> INT_MIN"
  shows "sint (- x) = - sint x"
proof -
  have lo: "- (2 ^ 31) \<le> sint x" and hi: "sint x < 2 ^ 31"
    using sint_ge [of x] sint_lt [of x] by simp_all
  from assms have "sint x \<noteq> - (2 ^ 31)" by (simp add: INT_MIN_iff)
  with lo hi have "- (2 ^ 31) \<le> - sint x" "- sint x < 2 ^ 31" by simp_all
  then show ?thesis
    by (simp add: sint_word_minus signed_take_bit_int_eq_self)
qed

lemma neg_int_positive:
  assumes "1 \<le> sint e"
  shows "neg_int e = Inr (- e)" and "sint (- e) = - sint e"
proof -
  from assms have ne: "e \<noteq> INT_MIN" by (auto simp: INT_MIN_iff)
  then show "neg_int e = Inr (- e)" by (simp add: neg_int_def)
  from ne show "sint (- e) = - sint e" by (rule sint_uminus_cint)
qed

subsection \<open>The body after the system call\<close>

lemma flushAllThreads_after_syscall:
  assumes "syscall (SYS_membarrier p) [MEMBARRIER_CMD_SHARED p, 0] w = (r, w')"
  shows "flushAllThreads p env clazz w =
           (if (scast r :: cint) = - 1 then neg_int (errno w') else Inr (scast r), w')"
  using assms by (simp add: Java_nativecode_MemBarrier_flushAllThreads_def)

lemma syscall_answering:
  "syscall n args (answering r e) =
     (r, \<lparr>errno = e, issued = [\<lparr>sys_number = n, sys_args = args\<rparr>],
          kernel = kernel (answering r e)\<rparr>)"
  by (simp add: syscall_def answering_def)

subsection \<open>Repeated calls\<close>

lemma repeat_calls_nth:
  "k < n \<Longrightarrow> fst (repeat_calls p env clazz n w) ! k =
     fst (flushAllThreads p env clazz (snd (repeat_calls p env clazz k w)))"
proof (induction k arbitrary: n w)
  case 0
  then obtain m where "n = Suc m" by (cases n) auto
  then show ?case by (simp add: split_beta Let_def)
next
  case (Suc k)
  then obtain m where n: "n = Suc m" and km: "k < m" by (cases n) auto
  from Suc.IH [OF km] n show ?case by (simp add: split_beta Let_def)
qed

section \<open>Return values\<close>

text \<open>
  C1. When the membarrier system call fails, that is \<^verbatim>\<open>syscall\<close> returns \<open>-1\<close>
  and \<^verbatim>\<open>errno\<close> holds the error number the operating system reports (error numbers
  are positive), the function returns normally, and its result is the arithmetic negation
  of that error number: a negative integer whose absolute value is the error number.
\<close>

theorem flushAllThreads_failure_negated_errno:
  assumes "syscall (SYS_membarrier p) [MEMBARRIER_CMD_SHARED p, 0] w = (- 1, w')"
    and "1 \<le> sint (errno w')"
  shows "flushAllThreads p env clazz w = (Inr (- errno w'), w')
         \<and> sint (- errno w') = - sint (errno w')
         \<and> sint (- errno w') < 0
         \<and> \<bar>sint (- errno w')\<bar> = sint (errno w')"
proof -
  have "flushAllThreads p env clazz w = (neg_int (errno w'), w')"
    using flushAllThreads_after_syscall [OF assms(1)] by simp
  with neg_int_positive [OF assms(2)] assms(2) show ?thesis by simp
qed

theorem flushAllThreads_failure_negated_errno_witness:
  "fst (syscall 324 [1, 0] (answering (- 1) ENOSYS)) = - 1
   \<and> sint (errno (snd (syscall 324 [1, 0] (answering (- 1) ENOSYS)))) = 38
   \<and> fst (flushAllThreads x86_64 () () (answering (- 1) ENOSYS)) = Inr (- 38)"
proof -
  let ?w' = "\<lparr>errno = ENOSYS, issued = [\<lparr>sys_number = 324, sys_args = [1, 0]\<rparr>],
              kernel = kernel (answering (- 1) ENOSYS)\<rparr>"
  have call: "syscall (SYS_membarrier x86_64) [MEMBARRIER_CMD_SHARED x86_64, 0]
                (answering (- 1) ENOSYS) = (- 1, ?w')"
    by (simp add: syscall_answering x86_64_def)
  have pos: "1 \<le> sint (errno ?w')"
    by (simp add: ENOSYS_def)
  from flushAllThreads_failure_negated_errno [OF call pos, of "()" "()"]
  show ?thesis
    by (simp add: syscall_answering ENOSYS_def)
qed

text \<open>
  C2. When the membarrier system call succeeds, that is \<^verbatim>\<open>syscall\<close> returns a
  non-negative \<^verbatim>\<open>int\<close> (the kernel computes membarrier's result as an
  \<^verbatim>\<open>int\<close>), the function returns exactly that value, which is non-negative.
\<close>

theorem flushAllThreads_success_unmodified:
  assumes "syscall (SYS_membarrier p) [MEMBARRIER_CMD_SHARED p, 0] w = (r, w')"
    and "0 \<le> sint r" and "sint r \<le> 2 ^ 31 - 1"
  shows "flushAllThreads p env clazz w = (Inr (scast r), w')
         \<and> sint (scast r :: jint) = sint r
         \<and> 0 \<le> sint (scast r :: jint)"
proof -
  from assms(2,3) have fits: "sint (scast r :: jint) = sint r"
    by (intro sint_scast_fits) simp_all
  with assms(2) have "(scast r :: jint) \<noteq> - 1" by auto
  with flushAllThreads_after_syscall [OF assms(1)] fits assms(2) show ?thesis by simp
qed

theorem flushAllThreads_success_unmodified_witness:
  "fst (syscall 324 [1, 0] (answering 0 0)) = 0
   \<and> flushAllThreads x86_64 () () (answering 0 0) =
       (Inr 0, snd (syscall 324 [1, 0] (answering 0 0)))"
proof -
  have call: "syscall (SYS_membarrier x86_64) [MEMBARRIER_CMD_SHARED x86_64, 0]
                (answering 0 0) = (0, snd (syscall 324 [1, 0] (answering 0 0)))"
    by (simp add: syscall_answering x86_64_def)
  have "(0::int) \<le> sint (0::long)" and "sint (0::long) \<le> 2 ^ 31 - 1" by simp_all
  from flushAllThreads_success_unmodified [OF call this, of "()" "()"]
  show ?thesis
    by (simp add: syscall_answering)
qed

text \<open>
  C6. The error path is taken exactly when the system call's result, the \<^verbatim>\<open>int\<close>
  that \<^verbatim>\<open>ret\<close> holds, is \<open>-1\<close>: the function then returns \<^verbatim>\<open>-errno\<close>, the
  exact negation for every \<^verbatim>\<open>errno\<close> other than \<^verbatim>\<open>INT_MIN\<close> (the one value
  whose negation C does not define, and no error number). For every other result, the
  negative ones included, it returns \<^verbatim>\<open>ret\<close> unchanged, whatever \<^verbatim>\<open>errno\<close>
  holds. The result of membarrier is an \<^verbatim>\<open>int\<close>: for a \<^verbatim>\<open>long\<close> in that range
  the conversion changes nothing, and \<^verbatim>\<open>ret\<close> is \<open>-1\<close> exactly when the value
  \<^verbatim>\<open>syscall\<close> returned is.
\<close>

theorem flushAllThreads_error_path_iff:
  assumes "syscall (SYS_membarrier p) [MEMBARRIER_CMD_SHARED p, 0] w = (r, w')"
  shows "((scast r :: cint) = - 1 \<longrightarrow>
            flushAllThreads p env clazz w = (neg_int (errno w'), w')
            \<and> (errno w' \<noteq> INT_MIN \<longrightarrow>
                 flushAllThreads p env clazz w = (Inr (- errno w'), w')
                 \<and> sint (- errno w') = - sint (errno w')))
       \<and> ((scast r :: cint) \<noteq> - 1 \<longrightarrow>
            flushAllThreads p env clazz w = (Inr (scast r), w'))
       \<and> (- (2 ^ 31) \<le> sint r \<and> sint r < 2 ^ 31 \<longrightarrow>
            ((scast r :: cint) = - 1 \<longleftrightarrow> r = - 1) \<and> sint (scast r :: cint) = sint r)"
proof -
  have conv: "((scast r :: cint) = - 1 \<longleftrightarrow> r = - 1) \<and> sint (scast r :: cint) = sint r"
    if "- (2 ^ 31) \<le> sint r" "sint r < 2 ^ 31"
  proof -
    from that have fits: "sint (scast r :: cint) = sint r" by (rule sint_scast_fits)
    then have "sint (scast r :: cint) = - 1 \<longleftrightarrow> sint r = - 1" by simp
    then have "(scast r :: cint) = - 1 \<longleftrightarrow> r = - 1"
      using word_eq_iff_signed [of "scast r :: cint" "- 1", where ?'a = int]
        word_eq_iff_signed [of r "- 1", where ?'a = int] by simp
    with fits show ?thesis by simp
  qed
  have neg: "neg_int (errno w') = Inr (- errno w') \<and> sint (- errno w') = - sint (errno w')"
    if "errno w' \<noteq> INT_MIN"
    using that by (simp add: neg_int_def sint_uminus_cint)
  from flushAllThreads_after_syscall [OF assms, of env clazz] conv neg
  show ?thesis by simp
qed

theorem flushAllThreads_error_path_iff_witness:
  "flushAllThreads x86_64 () () (answering (- 1) ENOSYS) =
     (Inr (- 38), snd (syscall 324 [1, 0] (answering (- 1) ENOSYS)))
   \<and> flushAllThreads x86_64 () () (answering (- 5) ENOSYS) =
     (Inr (- 5), snd (syscall 324 [1, 0] (answering (- 5) ENOSYS)))"
proof -
  let ?call = "syscall (SYS_membarrier x86_64) [MEMBARRIER_CMD_SHARED x86_64, 0]"
  have a: "?call (answering (- 1) ENOSYS) = (- 1, snd (?call (answering (- 1) ENOSYS)))"
    by (simp add: syscall_answering)
  have b: "?call (answering (- 5) ENOSYS) = (- 5, snd (?call (answering (- 5) ENOSYS)))"
    by (simp add: syscall_answering)
  have c: "errno (snd (?call (answering (- 1) ENOSYS))) \<noteq> INT_MIN"
    by (simp add: syscall_answering ENOSYS_def INT_MIN_def)
  have d: "errno (snd (?call (answering (- 1) ENOSYS))) = 38"
    by (simp add: syscall_answering ENOSYS_def)
  from flushAllThreads_error_path_iff [OF a, of "()" "()"] c d
  have "flushAllThreads x86_64 () () (answering (- 1) ENOSYS) =
          (Inr (- 38), snd (?call (answering (- 1) ENOSYS)))"
    by auto
  moreover from flushAllThreads_error_path_iff [OF b, of "()" "()"]
  have "flushAllThreads x86_64 () () (answering (- 5) ENOSYS) =
          (Inr (- 5), snd (?call (answering (- 5) ENOSYS)))"
    by simp
  ultimately show ?thesis
    by (simp add: x86_64_def)
qed

text \<open>
  C7. A failing call (\<^verbatim>\<open>syscall\<close> returns \<open>-1\<close>) that leaves \<^verbatim>\<open>errno\<close> at
  \<open>0\<close> makes the function return \<open>0\<close>, the same result as a call whose system call
  succeeded with \<open>0\<close>. A failing call yields a strictly negative result exactly when
  \<^verbatim>\<open>errno\<close> is at least \<open>1\<close>.
\<close>

theorem flushAllThreads_failure_errno_zero:
  assumes "syscall (SYS_membarrier p) [MEMBARRIER_CMD_SHARED p, 0] w = (- 1, w')"
    and "syscall (SYS_membarrier p) [MEMBARRIER_CMD_SHARED p, 0] v = (0, v')"
  shows "(errno w' = 0 \<longrightarrow> fst (flushAllThreads p env clazz w) = Inr 0
            \<and> fst (flushAllThreads p env clazz w) = fst (flushAllThreads p env clazz v))
       \<and> ((\<exists>res. fst (flushAllThreads p env clazz w) = Inr res \<and> sint res < 0)
            \<longleftrightarrow> 1 \<le> sint (errno w'))"
proof -
  have w: "fst (flushAllThreads p env clazz w) = neg_int (errno w')"
    using flushAllThreads_after_syscall [OF assms(1), of env clazz] by simp
  have v: "fst (flushAllThreads p env clazz v) = Inr 0"
    using flushAllThreads_after_syscall [OF assms(2), of env clazz] by simp
  have zero: "neg_int 0 = Inr 0"
    by (simp add: neg_int_def INT_MIN_def)
  have "(\<exists>res. neg_int (errno w') = Inr res \<and> sint res < 0) \<longleftrightarrow> 1 \<le> sint (errno w')"
  proof (cases "errno w' = INT_MIN")
    case True
    then show ?thesis by (simp add: neg_int_def INT_MIN_def)
  next
    case False
    then show ?thesis by (auto simp: neg_int_def sint_uminus_cint)
  qed
  with w v zero show ?thesis by simp
qed

theorem flushAllThreads_failure_errno_zero_witness:
  "fst (flushAllThreads x86_64 () () (answering (- 1) 0)) = Inr 0
   \<and> fst (flushAllThreads x86_64 () () (answering 0 0)) = Inr 0
   \<and> \<not> 1 \<le> sint (errno (snd (syscall 324 [1, 0] (answering (- 1) 0))))"
proof -
  let ?call = "syscall (SYS_membarrier x86_64) [MEMBARRIER_CMD_SHARED x86_64, 0]"
  have a: "?call (answering (- 1) 0) = (- 1, snd (?call (answering (- 1) 0)))"
    by (simp add: syscall_answering)
  have b: "?call (answering 0 0) = (0, snd (?call (answering 0 0)))"
    by (simp add: syscall_answering)
  from flushAllThreads_failure_errno_zero [OF a b, of "()" "()"]
  show ?thesis
    by (auto simp: syscall_answering)
qed

text \<open>
  C8. For every error number \<open>e\<close> with \<open>1 \<le> e \<le> 2\<^sup>3\<^sup>1 - 1\<close> in \<^verbatim>\<open>errno\<close>, a
  failing call returns the exact negation \<open>- e\<close>: the negation does not overflow, and the
  result is a 32-bit signed integer.
\<close>

theorem flushAllThreads_negation_exact:
  assumes "syscall (SYS_membarrier p) [MEMBARRIER_CMD_SHARED p, 0] w = (- 1, w')"
    and "errno w' = word_of_int e" and "1 \<le> e" and "e \<le> 2 ^ 31 - 1"
  shows "\<exists>res. flushAllThreads p env clazz w = (Inr res, w') \<and> sint res = - e
           \<and> - (2 ^ 31) \<le> sint res \<and> sint res \<le> 2 ^ 31 - 1"
proof -
  from assms(3,4) have "signed_take_bit 31 e = e"
    by (simp add: signed_take_bit_int_eq_self)
  with assms(2) have e: "sint (errno w') = e"
    by (simp add: sint_sbintrunc')
  with assms(3) have pos: "1 \<le> sint (errno w')" by simp
  have "flushAllThreads p env clazz w = (neg_int (errno w'), w')"
    using flushAllThreads_after_syscall [OF assms(1), of env clazz] by simp
  with neg_int_positive [OF pos] e assms(3,4) show ?thesis by simp
qed

theorem flushAllThreads_negation_exact_witness:
  "flushAllThreads x86_64 () () (answering (- 1) 2147483647) =
     (Inr (- 2147483647), snd (syscall 324 [1, 0] (answering (- 1) 2147483647)))
   \<and> sint (- 2147483647 :: jint) = - 2147483647"
proof -
  let ?call = "syscall (SYS_membarrier x86_64) [MEMBARRIER_CMD_SHARED x86_64, 0]"
  let ?w = "answering (- 1) 2147483647"
  have a: "?call ?w = (- 1, snd (?call ?w))"
    by (simp add: syscall_answering)
  have b: "errno (snd (?call ?w)) = word_of_int 2147483647"
    by (simp add: syscall_answering)
  have c: "(1::int) \<le> 2147483647" and d: "(2147483647::int) \<le> 2 ^ 31 - 1" by simp_all
  from flushAllThreads_negation_exact [OF a b c d, of "()" "()"]
  obtain res where "flushAllThreads x86_64 () () ?w = (Inr res, snd (?call ?w))"
    and "sint res = - 2147483647" by blast
  moreover have "fst (flushAllThreads x86_64 () () ?w) = Inr (- 2147483647)"
    by (simp add: Java_nativecode_MemBarrier_flushAllThreads_def syscall_answering
        neg_int_def INT_MIN_def)
  ultimately show ?thesis by (auto simp: x86_64_def)
qed

section \<open>Totality\<close>



section \<open>Effects\<close>

text \<open>
  C4. Every call issues exactly one system call: the list of issued system calls grows
  by one entry, which has the number \<^verbatim>\<open>SYS_membarrier\<close> and the arguments
  \<^verbatim>\<open>MEMBARRIER_CMD_SHARED\<close> and \<open>0\<close>. The state the function leaves behind is the
  state that one system call leaves behind; the function changes nothing else.
\<close>

theorem flushAllThreads_one_syscall:
  "issued (snd (flushAllThreads p env clazz w)) =
     issued w @ [\<lparr>sys_number = SYS_membarrier p, sys_args = [MEMBARRIER_CMD_SHARED p, 0]\<rparr>]
   \<and> length (issued (snd (flushAllThreads p env clazz w))) = Suc (length (issued w))
   \<and> kernel (snd (flushAllThreads p env clazz w)) = kernel w
   \<and> snd (flushAllThreads p env clazz w) =
       snd (syscall (SYS_membarrier p) [MEMBARRIER_CMD_SHARED p, 0] w)"
  by (simp add: Java_nativecode_MemBarrier_flushAllThreads_def syscall_def Let_def)

text \<open>
  C5. In a sequence of \<open>n\<close> calls, the result of call number \<open>k\<close> is the result of a
  single call made in any other state \<open>v\<close>, with any history, provided the system call
  has the same outcome there (the same return value and the same \<^verbatim>\<open>errno\<close>): a
  call's result depends on its own system call's outcome only.
\<close>

theorem flushAllThreads_stateless:
  assumes "k < n"
    and "syscall (SYS_membarrier p) [MEMBARRIER_CMD_SHARED p, 0]
           (snd (repeat_calls p env clazz k w)) = (r, w')"
    and "syscall (SYS_membarrier p) [MEMBARRIER_CMD_SHARED p, 0] v = (r, v')"
    and "errno v' = errno w'"
  shows "fst (repeat_calls p env clazz n w) ! k = fst (flushAllThreads p env clazz v)"
  using repeat_calls_nth [OF assms(1), of p env clazz w]
    flushAllThreads_after_syscall [OF assms(2), of env clazz]
    flushAllThreads_after_syscall [OF assms(3), of env clazz] assms(4)
  by simp

theorem flushAllThreads_stateless_witness:
  "fst (repeat_calls x86_64 () () 3 first_only) ! 1 =
     fst (flushAllThreads x86_64 () () (answering (- 1) 1))
   \<and> fst (flushAllThreads x86_64 () () (answering (- 1) 1)) = Inr (- 1)"
proof -
  let ?w1 = "snd (repeat_calls x86_64 () () 1 first_only)"
  let ?call = "syscall (SYS_membarrier x86_64) [MEMBARRIER_CMD_SHARED x86_64, 0]"
  have w1: "?w1 = \<lparr>errno = 0, issued = [\<lparr>sys_number = 324, sys_args = [1, 0]\<rparr>],
                     kernel = kernel first_only\<rparr>"
    by (simp add: Java_nativecode_MemBarrier_flushAllThreads_def syscall_def
        first_only_def x86_64_def Let_def)
  have a: "?call ?w1 = (- 1, snd (?call ?w1))"
    unfolding w1 by (simp add: syscall_def first_only_def Let_def)
  have b: "?call (answering (- 1) 1) = (- 1, snd (?call (answering (- 1) 1)))"
    by (simp add: syscall_answering)
  have c: "errno (snd (?call (answering (- 1) 1))) = errno (snd (?call ?w1))"
    unfolding w1 by (simp add: syscall_def first_only_def answering_def Let_def)
  have d: "(1::nat) < 3" by simp
  from flushAllThreads_stateless [OF d a b c]
  show ?thesis
    by (simp add: Java_nativecode_MemBarrier_flushAllThreads_def syscall_answering
        neg_int_def INT_MIN_def)
qed

section \<open>The signature\<close>

text \<open>
  C9. The function takes nothing but the call context of the foreign runtime, which does
  not influence it, and an integer it returns is a 32-bit signed integer.
\<close>

theorem flushAllThreads_signature:
  "flushAllThreads p env clazz w = flushAllThreads p env' clazz' w
   \<and> (\<forall>res. fst (flushAllThreads p env clazz w) = Inr res
        \<longrightarrow> - (2 ^ 31) \<le> sint res \<and> sint res \<le> 2 ^ 31 - 1)"
proof -
  have "- (2 ^ 31) \<le> sint res \<and> sint res \<le> 2 ^ 31 - 1" for res :: jint
    using sint_ge [of res] sint_lt [of res] by simp
  then show ?thesis
    by (simp add: Java_nativecode_MemBarrier_flushAllThreads_def)
qed

theorem flushAllThreads_signature_witness:
  "flushAllThreads x86_64 () () (answering 0 0) =
     flushAllThreads x86_64 (1::nat) (2::nat) (answering 0 0)
   \<and> fst (flushAllThreads x86_64 () () (answering 0 0)) = Inr 0
   \<and> - (2 ^ 31) \<le> sint (0 :: jint) \<and> sint (0 :: jint) \<le> 2 ^ 31 - 1"
proof -
  have "fst (flushAllThreads x86_64 () () (answering 0 0)) = Inr 0"
    by (simp add: Java_nativecode_MemBarrier_flushAllThreads_def syscall_answering)
  with flushAllThreads_signature [of x86_64 "()" "()" "answering 0 0" "1::nat" "2::nat"]
  show ?thesis by blast
qed

end
